theory Spec2Isabelle
  imports Complex_Main "HOL-Library.Sublist" "HOL-Library.Multiset"
begin

section \<open>The map widget (script of the landing page)\<close>

subsection \<open>Strings of the host language\<close>

text \<open>
  A string is a list of characters. \<open>toLowerCase\<close> is modelled on the ASCII letters
  \<open>A\<close>..\<open>Z\<close>, which is what the host language's \<open>toLowerCase\<close> does on ASCII text (every
  string of the catalog is ASCII); other characters are left as they are.
\<close>

definition lower_char :: "char \<Rightarrow> char" where
  "lower_char c =
     (let n = (of_char c :: nat) in if 65 \<le> n \<and> n \<le> 90 then char_of (n + 32) else c)"

definition toLowerCase :: "string \<Rightarrow> string" where
  "toLowerCase s = map lower_char s"

text \<open>\<open>starts_at t s\<close>: the text \<open>t\<close> occurs in \<open>s\<close> at position 0.\<close>

fun starts_at :: "string \<Rightarrow> string \<Rightarrow> bool" where
  "starts_at [] s = True"
| "starts_at (x # t) [] = False"
| "starts_at (x # t) (y # s) = (x = y \<and> starts_at t s)"

text \<open>\<open>str_includes s t\<close> is \<open>s.includes(t)\<close>: \<open>t\<close> occurs in \<open>s\<close> at some position.\<close>

fun str_includes :: "string \<Rightarrow> string \<Rightarrow> bool" where
  "str_includes [] t = starts_at t []"
| "str_includes (c # s) t = (starts_at t (c # s) \<or> str_includes s t)"

text \<open>
  The digit of a value below 16 (upper case, as in a percent escape), and the decimal
  digits of a non-negative integer, as a template literal prints it.
\<close>

definition digit_char :: "nat \<Rightarrow> char" where
  "digit_char d = ''0123456789ABCDEF'' ! d"

fun digits_of :: "nat \<Rightarrow> string" where
  "digits_of n =
     (if n < 10 then [digit_char n]
      else digits_of (n div 10) @ [digit_char (n mod 10)])"

declare digits_of.simps [simp del]

subsection \<open>The catalog\<close>

record monastery =
  name :: string
  lat :: rat
  lng :: rat
  sect :: string
  location :: string

definition MONASTERY_LOCATIONS :: "monastery list" where
  "MONASTERY_LOCATIONS =
    [\<lparr>name = ''Rumtek Monastery'', lat = 27.2753, lng = 88.5447,
      sect = ''Kagyu'', location = ''East Sikkim''\<rparr>,
     \<lparr>name = ''Pemayangtse Monastery'', lat = 27.3193, lng = 88.2435,
      sect = ''Nyingma'', location = ''West Sikkim''\<rparr>,
     \<lparr>name = ''Tashiding Monastery'', lat = 27.3060, lng = 88.2932,
      sect = ''Nyingma'', location = ''West Sikkim''\<rparr>,
     \<lparr>name = ''Enchey Monastery'', lat = 27.3370, lng = 88.6143,
      sect = ''Nyingma'', location = ''East Sikkim''\<rparr>,
     \<lparr>name = ''Phodong Monastery'', lat = 27.4208, lng = 88.5833,
      sect = ''Kagyu'', location = ''North Sikkim''\<rparr>,
     \<lparr>name = ''Sanga Choeling Monastery'', lat = 27.3069, lng = 88.2415,
      sect = ''Nyingma'', location = ''West Sikkim''\<rparr>,
     \<lparr>name = ''Dubdi Monastery'', lat = 27.3592, lng = 88.3533,
      sect = ''Nyingma'', location = ''West Sikkim''\<rparr>,
     \<lparr>name = ''Lingdum Monastery (Ranka)'', lat = 27.3005, lng = 88.5710,
      sect = ''Kagyu'', location = ''East Sikkim''\<rparr>,
     \<lparr>name = ''Do Drul Chorten'', lat = 27.3277, lng = 88.6186,
      sect = ''Nyingma'', location = ''East Sikkim''\<rparr>]"

subsection \<open>The filter\<close>

text \<open>
  The three controls read by \<open>filterMonasteries\<close>: the values of the elements
  \<open>sectFilter\<close>, \<open>locationFilter\<close> and \<open>searchInput\<close>.
\<close>

record controls =
  sectFilter :: string
  locationFilter :: string
  searchInput :: string

text \<open>
  The callback given to \<open>filter\<close>. \<open>searchTerm\<close> is the lower-cased value of the search
  field. The source has no test for an empty search term: it relies on \<open>includes\<close>.
\<close>

definition matches :: "string \<Rightarrow> string \<Rightarrow> string \<Rightarrow> monastery \<Rightarrow> bool" where
  "matches sct loc searchTerm m =
     (let matchesSect = (sct = ''all'' \<or> sect m = sct);
          matchesLocation = (loc = ''all'' \<or> location m = loc);
          matchesSearch = (str_includes (toLowerCase (name m)) searchTerm \<or>
                           str_includes (toLowerCase (location m)) searchTerm)
      in matchesSect \<and> matchesLocation \<and> matchesSearch)"

text \<open>
  The list \<open>filtered\<close> of \<open>filterMonasteries\<close>, with the catalog as an argument;
  the source applies it to \<open>MONASTERY_LOCATIONS\<close>.
\<close>

definition filter_locations :: "monastery list \<Rightarrow> controls \<Rightarrow> monastery list" where
  "filter_locations catalog c =
     (let sct = sectFilter c;
          loc = locationFilter c;
          searchTerm = toLowerCase (searchInput c)
      in filter (matches sct loc searchTerm) catalog)"

subsection \<open>Markers and the viewport\<close>

text \<open>
  \<open>encodeURIComponent\<close>: every byte that is not an unreserved character
  (\<open>A\<close>-\<open>Z\<close>, \<open>a\<close>-\<open>z\<close>, \<open>0\<close>-\<open>9\<close> and \<open>- _ . ! ~ * ' ( )\<close>) becomes \<open>%XX\<close>.
\<close>

definition unreserved :: "char \<Rightarrow> bool" where
  "unreserved c =
     (let n = (of_char c :: nat)
      in (65 \<le> n \<and> n \<le> 90) \<or> (97 \<le> n \<and> n \<le> 122) \<or> (48 \<le> n \<and> n \<le> 57) \<or>
         n \<in> {45, 95, 46, 33, 126, 42, 39, 40, 41})"

definition encodeURIComponent :: "string \<Rightarrow> string" where
  "encodeURIComponent s =
     concat (map (\<lambda>c. if unreserved c then [c]
                       else [CHR ''%'', digit_char ((of_char c :: nat) div 16),
                             digit_char ((of_char c :: nat) mod 16)]) s)"

text \<open>
  The popup of a marker, as the values the template \<open>popupContent\<close> interpolates: the
  name, the sect, the location, the link to the detail page and the position in the
  link to the external map service.
\<close>

record popup =
  heading :: string
  sect_line :: string
  location_line :: string
  detail_href :: string
  maps_at :: "rat \<times> rat"

definition popupContent :: "monastery \<Rightarrow> popup" where
  "popupContent m =
     \<lparr>heading = name m, sect_line = sect m, location_line = location m,
      detail_href = ''monastery_detail.html?name='' @ encodeURIComponent (name m),
      maps_at = (lat m, lng m)\<rparr>"

text \<open>
  A marker: its position, the popup bound to it, and the record stored in
  \<open>marker.options.monastery\<close>.
\<close>

record marker =
  latlng :: "rat \<times> rat"
  bound_popup :: popup
  options_monastery :: monastery

definition new_marker :: "monastery \<Rightarrow> marker" where
  "new_marker m =
     \<lparr>latlng = (lat m, lng m), bound_popup = popupContent m, options_monastery = m\<rparr>"

text \<open>
  The viewport made by \<open>L.map\<close>: its view, the tile layers added to it, and whether the
  layer group \<open>markers\<close> is attached to it. The page holds the variable \<open>map\<close>
  (\<open>None\<close> before the first \<open>initMap\<close>), the layers of the group \<open>markers\<close> in the order
  they were added, and the text and the display style of the element
  \<open>searchFeedback\<close>.
\<close>

record viewport =
  center :: "rat \<times> rat"
  zoom :: nat
  tile_layers :: "string list"
  has_markers :: bool

record page =
  map_var :: "viewport option"
  markers :: "marker list"
  feedback_text :: string
  feedback_display :: string

definition SIKKIM_CENTER :: "rat \<times> rat" where
  "SIKKIM_CENTER = (27.33, 88.62)"

definition ZOOM_LEVEL :: nat where
  "ZOOM_LEVEL = 10"

text \<open>The group \<open>markers\<close> is attached to the viewport the variable \<open>map\<close> holds.\<close>

definition markers_attached :: "page \<Rightarrow> bool" where
  "markers_attached s = (case map_var s of None \<Rightarrow> False | Some v \<Rightarrow> has_markers v)"

text \<open>The markers drawn on the viewport: those of the group, when it is attached.\<close>

definition markers_on_map :: "page \<Rightarrow> marker list" where
  "markers_on_map s = (if markers_attached s then markers s else [])"

definition clearLayers :: "page \<Rightarrow> page" where
  "clearLayers s = s\<lparr>markers := []\<rparr>"

definition addLayer :: "marker \<Rightarrow> page \<Rightarrow> page" where
  "addLayer k s = s\<lparr>markers := markers s @ [k]\<rparr>"

text \<open>\<open>addMarkers\<close>: clear the group, then one \<open>addLayer\<close> for each element, in order.\<close>

definition addMarkers :: "monastery list \<Rightarrow> page \<Rightarrow> page" where
  "addMarkers locations s = fold (\<lambda>m. addLayer (new_marker m)) locations (clearLayers s)"

text \<open>
  \<open>initMap\<close>, in the four steps of the source. \<open>map.remove()\<close> detaches every layer of
  the old viewport, the group \<open>markers\<close> among them, and the new viewport starts with no
  layer. \<open>before_initial_render\<close> is the page when \<open>initMap\<close> reaches its call of
  \<open>addMarkers\<close>.
\<close>

definition create_map :: "page \<Rightarrow> page" where
  "create_map s =
     s\<lparr>map_var := Some \<lparr>center = SIKKIM_CENTER, zoom = ZOOM_LEVEL,
                         tile_layers = [], has_markers = False\<rparr>\<rparr>"

definition add_tile_layer :: "string \<Rightarrow> page \<Rightarrow> page" where
  "add_tile_layer url s =
     s\<lparr>map_var := map_option (\<lambda>v. v\<lparr>tile_layers := tile_layers v @ [url]\<rparr>) (map_var s)\<rparr>"

definition markers_addTo_map :: "page \<Rightarrow> page" where
  "markers_addTo_map s =
     s\<lparr>map_var := map_option (\<lambda>v. v\<lparr>has_markers := True\<rparr>) (map_var s)\<rparr>"

definition before_initial_render :: "page \<Rightarrow> page" where
  "before_initial_render s =
     add_tile_layer ''https://{s}.tile.openstreetmap.org/{z}/{x}/{y}.png'' (create_map s)"

definition initMap :: "page \<Rightarrow> page" where
  "initMap s = markers_addTo_map (addMarkers MONASTERY_LOCATIONS (before_initial_render s))"

text \<open>
  \<open>filterMonasteries\<close>: the filter over the catalog, the render, then the feedback.
  \<open>search\<close> calls it.
\<close>

definition feedback_of :: "nat \<Rightarrow> string" where
  "feedback_of n = ''Found '' @ digits_of n @ '' monasteries matching your criteria.''"

definition filterMonasteries :: "controls \<Rightarrow> page \<Rightarrow> page" where
  "filterMonasteries c s =
     (let filtered = filter_locations MONASTERY_LOCATIONS c
      in (addMarkers filtered s)\<lparr>feedback_text := feedback_of (length filtered),
                                 feedback_display := ''block''\<rparr>)"

definition search :: "controls \<Rightarrow> page \<Rightarrow> page" where
  "search c s = filterMonasteries c s"

text \<open>
  The page when the script has been loaded, and what can happen to it: the load event
  runs \<open>initMap\<close>; later the visitor changes a control or presses the search button,
  with the controls holding any values.
\<close>

definition page_loaded :: page where
  "page_loaded = \<lparr>map_var = None, markers = [], feedback_text = [], feedback_display = []\<rparr>"

datatype event = DOMContentLoaded | FilterChanged controls | SearchPressed controls

fun handle :: "event \<Rightarrow> page \<Rightarrow> page" where
  "handle DOMContentLoaded s = initMap s"
| "handle (FilterChanged c) s = filterMonasteries c s"
| "handle (SearchPressed c) s = search c s"

definition run :: "event list \<Rightarrow> page \<Rightarrow> page" where
  "run es s = fold handle es s"

subsection \<open>The slider\<close>

text \<open>
  The remainder \<open>%\<close> of the host language on integers: the sign of the dividend, and no
  number (\<open>None\<close>) when the divisor is zero. \<open>currentSlide\<close> is \<open>None\<close> when it is not a
  number. A slide is modelled by whether its class list holds \<open>active\<close>.
\<close>

definition js_rem :: "int \<Rightarrow> int \<Rightarrow> int option" where
  "js_rem a b = (if b = 0 then None else Some (sgn a * (\<bar>a\<bar> mod \<bar>b\<bar>)))"

record slider =
  slides :: "bool list"
  currentSlide :: "int option"

definition showSlide :: "int option \<Rightarrow> slider \<Rightarrow> slider" where
  "showSlide index s =
     \<lparr>slides = map (\<lambda>i. Some (int i) = index) [0 ..< length (slides s)],
      currentSlide = index\<rparr>"

definition nextSlide :: "slider \<Rightarrow> slider" where
  "nextSlide s =
     showSlide (case currentSlide s of None \<Rightarrow> None
                | Some c \<Rightarrow> js_rem (c + 1) (int (length (slides s)))) s"

definition prevSlide :: "slider \<Rightarrow> slider" where
  "prevSlide s =
     showSlide (case currentSlide s of None \<Rightarrow> None
                | Some c \<Rightarrow> js_rem (c - 1 + int (length (slides s))) (int (length (slides s)))) s"

section \<open>The backend (two entry points)\<close>

text \<open>
  The source holds two entry points with the same routes: one for a serverless
  deployment and one for a long-running server. A request is handled from its start to
  its response with no other request in between.
\<close>

datatype variant = Serverless | Server

subsection \<open>The store\<close>

record user_doc =
  user_id :: nat
  username :: string
  password :: string
  role :: string

record photo_doc =
  filename :: string
  filepath :: string
  uploadDate :: int

text \<open>
  The store: whether its operations succeed (\<open>connected\<close>; when it is \<open>False\<close> every
  operation throws), and the two collections in insertion order.
\<close>

record store =
  connected :: bool
  users :: "user_doc list"
  photos :: "photo_doc list"

text \<open>
  The libraries the handlers call, as parameters: \<open>bcrypt.hash(password, 10)\<close>,
  \<open>bcrypt.compare(password, hash)\<close> on two strings, and \<open>jwt.sign\<close> on the payload made
  of the user (\<open>None\<close> when it throws).
\<close>

record libs =
  bcrypt_hash :: "string \<Rightarrow> string"
  bcrypt_compare :: "string \<Rightarrow> string \<Rightarrow> bool"
  jwt_sign :: "user_doc \<Rightarrow> string option"

subsection \<open>Requests and responses\<close>

text \<open>
  The body of a signup or login request: the fields \<open>username\<close> and \<open>password\<close>, each a
  string or absent.
\<close>

record credentials =
  req_username :: "string option"
  req_password :: "string option"

datatype photo_json = Stored photo_doc | Placeholder string

text \<open>
  The response bodies: \<open>{error}\<close>; \<open>{message, user}\<close> with the user name (serverless
  signup); \<open>{message, user: {username, role}}\<close> (server signup);
  \<open>{message, token, role, username}\<close> (login); and the array of the photo listing.
\<close>

datatype body =
  ErrorBody string
| SignupBody string string
| SignupRoleBody string string string
| LoginBody string string string string
| PhotosBody "photo_json list"

record response =
  status :: nat
  body :: body

text \<open>\<open>!x\<close> on a field of the body: absent or the empty string.\<close>

definition falsy :: "string option \<Rightarrow> bool" where
  "falsy x = (case x of None \<Rightarrow> True | Some v \<Rightarrow> v = [])"

subsection \<open>The user model\<close>

text \<open>
  \<open>trim\<close> on the ASCII white space (tab, line feed, vertical tab, form feed, carriage
  return, space). The user name of the server's schema has \<open>trim: true\<close>, the one of the
  serverless schema has not; the setter runs when a document is created and on the
  filter of a query.
\<close>

definition is_space :: "char \<Rightarrow> bool" where
  "is_space c = ((of_char c :: nat) \<in> {9, 10, 11, 12, 13, 32})"

definition js_trim :: "string \<Rightarrow> string" where
  "js_trim s = rev (dropWhile is_space (rev (dropWhile is_space s)))"

definition username_setter :: "variant \<Rightarrow> string \<Rightarrow> string" where
  "username_setter v u = (case v of Serverless \<Rightarrow> u | Server \<Rightarrow> js_trim u)"

datatype create_error = DuplicateKey | ValidationError

text \<open>
  \<open>User.create\<close>: the setters, then the validators of the schema (both fields required,
  the role one of \<open>admin\<close> and \<open>user\<close>), then the insertion, which the unique index on the
  user name refuses with the error code 11000 (\<open>DuplicateKey\<close>).
\<close>

definition User_create ::
  "variant \<Rightarrow> string \<Rightarrow> string \<Rightarrow> string \<Rightarrow> store \<Rightarrow> create_error + (user_doc \<times> store)" where
  "User_create v uname pw r db =
     (let u = username_setter v uname
      in if u = [] \<or> pw = [] \<or> (r \<noteq> ''admin'' \<and> r \<noteq> ''user'') then Inl ValidationError
         else if u \<in> set (map username (users db)) then Inl DuplicateKey
         else let doc = \<lparr>user_id = length (users db), username = u, password = pw, role = r\<rparr>
              in Inr (doc, db\<lparr>users := users db @ [doc]\<rparr>))"

text \<open>\<open>User.findOne({ username })\<close>; an absent user name matches no document.\<close>

definition User_findOne :: "variant \<Rightarrow> string option \<Rightarrow> store \<Rightarrow> user_doc option" where
  "User_findOne v uname db =
     (case uname of None \<Rightarrow> None
      | Some u \<Rightarrow> find (\<lambda>d. username d = username_setter v u) (users db))"

subsection \<open>Signup\<close>

text \<open>The \<open>catch\<close> block of both signup handlers.\<close>

definition signup_catch :: "create_error \<Rightarrow> response" where
  "signup_catch e =
     (case e of
        DuplicateKey \<Rightarrow> \<lparr>status = 409, body = ErrorBody ''Username already exists.''\<rparr>
      | ValidationError \<Rightarrow> \<lparr>status = 500, body = ErrorBody ''Failed to register user''\<rparr>)"

definition store_down_signup :: response where
  "store_down_signup = \<lparr>status = 500, body = ErrorBody ''Failed to register user''\<rparr>"

text \<open>
  Both handlers touch the store twice, and wait each time: \<open>await User.countDocuments()\<close>
  reads the number of users, \<open>await User.create(...)\<close> inserts later, on the store as it
  is then. Other requests can be handled in between. A handler is therefore modelled
  in two steps: up to the count, which either answers or leaves a pending signup (the
  user name, the password and \<open>userCount\<close>), and from the count on.
\<close>

record pending_signup =
  p_username :: string
  p_password :: string
  p_userCount :: nat

text \<open>
  The serverless handler of \<open>POST /api/signup\<close>, up to \<open>User.countDocuments()\<close>. The
  first test is \<open>!username || !password\<close>: an absent field fails it (the last case) as
  an empty one does. The handler has no other test of the password. The pending signup
  holds the hashed password.
\<close>

definition signup_serverless_count ::
  "libs \<Rightarrow> credentials \<Rightarrow> store \<Rightarrow> response + pending_signup" where
  "signup_serverless_count lib req db =
     (case (req_username req, req_password req) of
        (Some uname, Some pw) \<Rightarrow>
          if falsy (Some uname) \<or> falsy (Some pw)
          then Inl \<lparr>status = 400, body = ErrorBody ''Username and password are required''\<rparr>
          else
            let hashedPassword = bcrypt_hash lib pw
            in if \<not> connected db then Inl store_down_signup
               else Inr \<lparr>p_username = uname, p_password = hashedPassword,
                         p_userCount = length (users db)\<rparr>
      | _ \<Rightarrow> Inl \<lparr>status = 400, body = ErrorBody ''Username and password are required''\<rparr>)"

text \<open>The serverless handler from the count on: the role, then \<open>User.create\<close>.\<close>

definition signup_serverless_create :: "pending_signup \<Rightarrow> store \<Rightarrow> response \<times> store" where
  "signup_serverless_create k db =
     (let r = (if p_userCount k = 0 then ''admin'' else ''user'')
      in if \<not> connected db then (store_down_signup, db)
         else (case User_create Serverless (p_username k) (p_password k) r db of
                 Inl e \<Rightarrow> (signup_catch e, db)
               | Inr (newUser, db') \<Rightarrow>
                   (\<lparr>status = 201,
                     body = SignupBody ''User registered successfully''
                              (username newUser)\<rparr>, db')))"

text \<open>
  The server's handler of \<open>POST /api/signup\<close>, up to \<open>User.countDocuments()\<close>: the same
  first test, then the test \<open>password.length < 6\<close>. The pending signup holds the
  password as it came.
\<close>

definition signup_server_count ::
  "libs \<Rightarrow> credentials \<Rightarrow> store \<Rightarrow> response + pending_signup" where
  "signup_server_count lib req db =
     (case (req_username req, req_password req) of
        (Some uname, Some pw) \<Rightarrow>
          if falsy (Some uname) \<or> falsy (Some pw)
          then Inl \<lparr>status = 400, body = ErrorBody ''Username and password are required''\<rparr>
          else if length pw < 6
          then Inl \<lparr>status = 400,
                    body = ErrorBody ''Password must be at least 6 characters long''\<rparr>
          else if \<not> connected db then Inl store_down_signup
          else Inr \<lparr>p_username = uname, p_password = pw, p_userCount = length (users db)\<rparr>
      | _ \<Rightarrow> Inl \<lparr>status = 400, body = ErrorBody ''Username and password are required''\<rparr>)"

text \<open>The server's handler from the count on: the role, the hash, then \<open>User.create\<close>.\<close>

definition signup_server_create ::
  "libs \<Rightarrow> pending_signup \<Rightarrow> store \<Rightarrow> response \<times> store" where
  "signup_server_create lib k db =
     (let r = (if p_userCount k = 0 then ''admin'' else ''user'');
          hashedPassword = bcrypt_hash lib (p_password k)
      in if \<not> connected db then (store_down_signup, db)
         else (case User_create Server (p_username k) hashedPassword r db of
                 Inl e \<Rightarrow> (signup_catch e, db)
               | Inr (newUser, db') \<Rightarrow>
                   (\<lparr>status = 201,
                     body = SignupRoleBody ''User registered successfully!''
                              (username newUser) (role newUser)\<rparr>, db')))"

definition signup_count ::
  "variant \<Rightarrow> libs \<Rightarrow> credentials \<Rightarrow> store \<Rightarrow> response + pending_signup" where
  "signup_count v = (case v of Serverless \<Rightarrow> signup_serverless_count
                     | Server \<Rightarrow> signup_server_count)"

definition signup_create ::
  "variant \<Rightarrow> libs \<Rightarrow> pending_signup \<Rightarrow> store \<Rightarrow> response \<times> store" where
  "signup_create v lib = (case v of Serverless \<Rightarrow> signup_serverless_create
                          | Server \<Rightarrow> signup_server_create lib)"

text \<open>A signup with no other request in between: both steps on the same store.\<close>

definition signup :: "variant \<Rightarrow> libs \<Rightarrow> credentials \<Rightarrow> store \<Rightarrow> response \<times> store" where
  "signup v lib req db =
     (case signup_count v lib req db of
        Inl r \<Rightarrow> (r, db)
      | Inr k \<Rightarrow> signup_create v lib k db)"

text \<open>
  Signups in any interleaving. The backend holds the store, the signups that have read
  their count and wait (by request number), and the responses sent so far. A request
  arrives and runs up to its count; a waiting request resumes and runs to its response.
\<close>

record backend =
  held :: store
  waiting :: "(nat \<times> pending_signup) list"
  answered :: "(nat \<times> response) list"

datatype signup_event = Arrives nat credentials | Resumes nat

definition signup_step :: "variant \<Rightarrow> libs \<Rightarrow> signup_event \<Rightarrow> backend \<Rightarrow> backend" where
  "signup_step v lib e s =
     (case e of
        Arrives i req \<Rightarrow>
          (case signup_count v lib req (held s) of
             Inl r \<Rightarrow> s\<lparr>answered := answered s @ [(i, r)]\<rparr>
           | Inr k \<Rightarrow> s\<lparr>waiting := waiting s @ [(i, k)]\<rparr>)
      | Resumes i \<Rightarrow>
          (case map_of (waiting s) i of
             None \<Rightarrow> s
           | Some k \<Rightarrow>
               (case signup_create v lib k (held s) of
                  (r, db') \<Rightarrow>
                    \<lparr>held = db', waiting = filter (\<lambda>w. fst w \<noteq> i) (waiting s),
                     answered = answered s @ [(i, r)]\<rparr>)))"

definition signup_run :: "variant \<Rightarrow> libs \<Rightarrow> signup_event list \<Rightarrow> backend \<Rightarrow> backend" where
  "signup_run v lib es s = fold (signup_step v lib) es s"

definition idle :: "store \<Rightarrow> backend" where
  "idle db = \<lparr>held = db, waiting = [], answered = []\<rparr>"

subsection \<open>Login\<close>

definition invalid_credentials :: response where
  "invalid_credentials = \<lparr>status = 401, body = ErrorBody ''Invalid credentials''\<rparr>"

definition login_failed :: response where
  "login_failed = \<lparr>status = 500, body = ErrorBody ''Login failed''\<rparr>"

text \<open>
  The handler of \<open>POST /api/login\<close>; its text is the same in both entry points, the
  schema of the user differs. The handler does not test its fields: when the user is
  found and the body has no password, \<open>bcrypt.compare\<close> is called with \<open>undefined\<close> and
  throws (it requires both arguments), and the \<open>catch\<close> block answers.
\<close>

definition login :: "variant \<Rightarrow> libs \<Rightarrow> credentials \<Rightarrow> store \<Rightarrow> response" where
  "login v lib req db =
     (if \<not> connected db then login_failed
      else case User_findOne v (req_username req) db of
        None \<Rightarrow> invalid_credentials
      | Some user \<Rightarrow>
          (case req_password req of
             None \<Rightarrow> login_failed
           | Some pw \<Rightarrow>
               if \<not> bcrypt_compare lib pw (password user) then invalid_credentials
               else (case jwt_sign lib user of
                       None \<Rightarrow> login_failed
                     | Some token \<Rightarrow>
                         \<lparr>status = 200,
                          body = LoginBody ''Login successful'' token (role user)
                                   (username user)\<rparr>)))"

subsection \<open>The photo listing\<close>

text \<open>
  \<open>Photo.find().sort({ uploadDate: -1 })\<close>: the photos by decreasing upload date;
  photos of the same date keep their order.
\<close>

definition most_recent_first :: "photo_doc list \<Rightarrow> photo_doc list" where
  "most_recent_first ps = sort_key (\<lambda>p. - uploadDate p) ps"

definition mockPhotos :: "photo_json list" where
  "mockPhotos = [Placeholder ''/static/rumtek.jpg'', Placeholder ''/static/pemayangtse.jpg'']"

text \<open>The serverless handler of \<open>GET /api/photos\<close>.\<close>

definition get_photos_serverless :: "store \<Rightarrow> response" where
  "get_photos_serverless db =
     (if \<not> connected db then \<lparr>status = 200, body = PhotosBody mockPhotos\<rparr>
      else let found = most_recent_first (photos db)
           in if length found = 0 then \<lparr>status = 200, body = PhotosBody mockPhotos\<rparr>
              else \<lparr>status = 200, body = PhotosBody (map Stored found)\<rparr>)"

text \<open>The server's handler of \<open>GET /api/photos\<close>.\<close>

definition get_photos_server :: "store \<Rightarrow> response" where
  "get_photos_server db =
     (if \<not> connected db then \<lparr>status = 500, body = ErrorBody ''Failed to fetch photos''\<rparr>
      else let found = most_recent_first (photos db)
           in \<lparr>status = 200, body = PhotosBody (map Stored found)\<rparr>)"

definition get_photos :: "variant \<Rightarrow> store \<Rightarrow> response" where
  "get_photos v = (case v of Serverless \<Rightarrow> get_photos_serverless | Server \<Rightarrow> get_photos_server)"

subsection \<open>Sample values\<close>

text \<open>
  Libraries and stores for the concrete runs below: a hash that prefixes the password,
  the comparison that goes with it, a signature that never throws; a store with no
  document, and a store with the single user \<open>alice\<close>.
\<close>

definition sample_libs :: libs where
  "sample_libs =
     \<lparr>bcrypt_hash = (\<lambda>p. ''$2b$10$'' @ p),
      bcrypt_compare = (\<lambda>p h. h = ''$2b$10$'' @ p),
      jwt_sign = (\<lambda>u. Some (''token-'' @ username u))\<rparr>"

definition empty_store :: store where
  "empty_store = \<lparr>connected = True, users = [], photos = []\<rparr>"

definition alice_store :: store where
  "alice_store =
     \<lparr>connected = True,
      users = [\<lparr>user_id = 0, username = ''alice'', password = ''$2b$10$secret1'',
                role = ''admin''\<rparr>],
      photos = []\<rparr>"

section \<open>Properties of the map widget\<close>

subsection \<open>The filter\<close>

lemma starts_at_prefix: "starts_at t s = prefix t s"
  by (induction t s rule: starts_at.induct) auto

lemma str_includes_sublist: "str_includes s t = sublist t s"
  by (induction s) (auto simp: starts_at_prefix sublist_Cons_right)

text \<open>
  Claim C1. For every catalog and every value of the three controls, the filter returns
  the records of the catalog, in catalog order, for which all three predicates hold:
  the category is \<open>all\<close> or equals the record's sect; the region is \<open>all\<close> or equals the
  record's location; the search text is empty or its lower-cased form is a substring
  (\<open>sublist\<close>: a contiguous part) of the lower-cased name or of the lower-cased location.
\<close>

theorem filter_locations_spec:
  "filter_locations catalog c =
     filter (\<lambda>m. (sectFilter c = ''all'' \<or> sect m = sectFilter c) \<and>
                  (locationFilter c = ''all'' \<or> location m = locationFilter c) \<and>
                  (searchInput c = [] \<or>
                   sublist (toLowerCase (searchInput c)) (toLowerCase (name m)) \<or>
                   sublist (toLowerCase (searchInput c)) (toLowerCase (location m))))
       catalog"
  unfolding filter_locations_def matches_def Let_def str_includes_sublist
  by (rule filter_cong) (auto simp: toLowerCase_def)

text \<open>
  Claim C2. On the catalog of nine records, the controls \<open>Nyingma\<close>, \<open>all\<close> and the empty
  search text give the six records Pemayangtse, Tashiding, Enchey, Sanga Choeling, Dubdi
  and Do Drul Chorten (the records 1, 2, 3, 5, 6 and 8 of the catalog, in that order),
  and \<open>filterMonasteries\<close> leaves the feedback text
  \<open>Found 6 monasteries matching your criteria.\<close>
\<close>

theorem nyingma_scenario:
  "filter_locations MONASTERY_LOCATIONS
      \<lparr>sectFilter = ''Nyingma'', locationFilter = ''all'', searchInput = []\<rparr> =
     map (\<lambda>i. MONASTERY_LOCATIONS ! i) [1, 2, 3, 5, 6, 8] \<and>
   map name (filter_locations MONASTERY_LOCATIONS
      \<lparr>sectFilter = ''Nyingma'', locationFilter = ''all'', searchInput = []\<rparr>) =
     [''Pemayangtse Monastery'', ''Tashiding Monastery'', ''Enchey Monastery'',
      ''Sanga Choeling Monastery'', ''Dubdi Monastery'', ''Do Drul Chorten''] \<and>
   length MONASTERY_LOCATIONS = 9 \<and>
   feedback_text (filterMonasteries
      \<lparr>sectFilter = ''Nyingma'', locationFilter = ''all'', searchInput = []\<rparr> s) =
     ''Found 6 monasteries matching your criteria.''"
  by (simp add: filterMonasteries_def feedback_of_def filter_locations_def matches_def
      MONASTERY_LOCATIONS_def toLowerCase_def digits_of.simps digit_char_def Let_def)

text \<open>
  Claim C3. With both selectors at the wildcard \<open>all\<close> and an empty search text the
  filter returns the whole catalog, unchanged and in its order, for every catalog.
\<close>

theorem wildcard_identity:
  "filter_locations catalog
     \<lparr>sectFilter = ''all'', locationFilter = ''all'', searchInput = []\<rparr> = catalog"
  by (simp add: filter_locations_def matches_def str_includes_sublist toLowerCase_def)

subsection \<open>Rendering\<close>

lemma markers_fold_addLayer:
  "markers (fold (\<lambda>m. addLayer (new_marker m)) ls s) = markers s @ map new_marker ls"
  by (induction ls arbitrary: s) (simp_all add: addLayer_def)

lemma map_var_fold_addLayer:
  "map_var (fold (\<lambda>m. addLayer (new_marker m)) ls s) = map_var s"
  by (induction ls arbitrary: s) (simp_all add: addLayer_def)

lemma markers_addMarkers: "markers (addMarkers ls s) = map new_marker ls"
  by (simp add: addMarkers_def markers_fold_addLayer clearLayers_def)

lemma map_var_addMarkers: "map_var (addMarkers ls s) = map_var s"
  by (simp add: addMarkers_def map_var_fold_addLayer clearLayers_def)

text \<open>
  Claim C4. After \<open>addMarkers\<close>, whatever the group held before, the group holds exactly
  one marker for each input record, in input order, each at the coordinates of its
  record, and nothing else: no marker of an earlier render is left.
\<close>

theorem addMarkers_one_marker_per_record:
  "markers (addMarkers locations s) = map new_marker locations \<and>
   length (markers (addMarkers locations s)) = length locations \<and>
   map latlng (markers (addMarkers locations s)) = map (\<lambda>m. (lat m, lng m)) locations \<and>
   map options_monastery (markers (addMarkers locations s)) = locations"
  by (simp add: markers_addMarkers new_marker_def comp_def)

lemma attached_addMarkers: "markers_attached (addMarkers ls s) = markers_attached s"
  by (simp add: markers_attached_def map_var_addMarkers)

lemma attached_initMap: "markers_attached (initMap s)"
  by (simp add: initMap_def markers_addTo_map_def markers_attached_def map_var_addMarkers
      before_initial_render_def add_tile_layer_def create_map_def)

lemma attached_filterMonasteries:
  "markers_attached (filterMonasteries c s) = markers_attached s"
  by (simp add: filterMonasteries_def Let_def markers_attached_def map_var_addMarkers)

lemma attached_handle: "markers_attached s \<Longrightarrow> markers_attached (handle e s)"
  by (cases e) (simp_all add: attached_initMap attached_filterMonasteries search_def)

lemma attached_run: "markers_attached s \<Longrightarrow> markers_attached (run es s)"
  unfolding run_def by (induction es arbitrary: s) (simp_all add: attached_handle)

text \<open>
  Claim C5, as stated, fails at the initial render: when \<open>initMap\<close> runs on the loaded
  page and reaches its call of \<open>addMarkers\<close>, the group is not attached to the viewport;
  the nine markers are added to it, and it is still not attached after them.
\<close>

theorem initial_render_on_detached_layer:
  "\<not> markers_attached (before_initial_render page_loaded) \<and>
   length (markers (addMarkers MONASTERY_LOCATIONS (before_initial_render page_loaded))) = 9 \<and>
   \<not> markers_attached (addMarkers MONASTERY_LOCATIONS (before_initial_render page_loaded))"
proof -
  have "\<not> markers_attached (before_initial_render page_loaded)"
    by (simp add: before_initial_render_def add_tile_layer_def create_map_def
        markers_attached_def page_loaded_def)
  moreover have "length MONASTERY_LOCATIONS = 9"
    by (simp add: MONASTERY_LOCATIONS_def)
  ultimately show ?thesis
    by (simp add: markers_addMarkers attached_addMarkers)
qed

text \<open>
  Claim C5, amended. \<open>initMap\<close> attaches the group right after its initial render, so
  that when it returns the group is attached and the nine markers are on the viewport;
  after that the group stays attached whatever events follow, so every render started
  by a filter or a search adds its markers to an attached group; and \<open>addMarkers\<close>
  itself never changes whether the group is attached.
\<close>

theorem render_after_initMap_on_attached_layer:
  "markers_attached (initMap s) \<and>
   markers_on_map (initMap s) = map new_marker MONASTERY_LOCATIONS \<and>
   markers_attached (run es (initMap s)) \<and>
   markers_attached (addMarkers locations t) = markers_attached t"
  by (simp add: attached_run attached_initMap attached_addMarkers markers_on_map_def)
    (simp add: initMap_def markers_addTo_map_def markers_addMarkers)

subsection \<open>The slider\<close>

lemma js_rem_nonneg: "0 \<le> a \<Longrightarrow> 0 < b \<Longrightarrow> js_rem a b = Some (a mod b)"
  by (cases "a = 0") (simp_all add: js_rem_def)

lemma length_nextSlide: "length (slides (nextSlide s)) = length (slides s)"
  by (simp add: nextSlide_def showSlide_def)

lemma length_prevSlide: "length (slides (prevSlide s)) = length (slides s)"
  by (simp add: prevSlide_def showSlide_def)

lemma next_step:
  assumes "length (slides s) = n" and "0 < n" and "currentSlide s = Some c" and "0 \<le> c"
  shows "currentSlide (nextSlide s) = Some ((c + 1) mod int n)"
proof -
  have "js_rem (c + 1) (int n) = Some ((c + 1) mod int n)"
    using assms by (intro js_rem_nonneg) simp_all
  then show ?thesis
    using assms by (simp add: nextSlide_def showSlide_def)
qed

lemma prev_step:
  assumes "length (slides s) = n" and "0 < n" and "currentSlide s = Some c" and "0 \<le> c"
  shows "currentSlide (prevSlide s) = Some ((c - 1 + int n) mod int n)"
proof -
  have "0 \<le> c - 1 + int n"
    using assms by linarith
  then have "js_rem (c - 1 + int n) (int n) = Some ((c - 1 + int n) mod int n)"
    using assms by (intro js_rem_nonneg) simp_all
  then show ?thesis
    using assms by (simp add: prevSlide_def showSlide_def)
qed

lemma next_iter:
  assumes "length (slides s) = n" and "0 < n" and "currentSlide s = Some c" and "0 \<le> c"
    and "c < int n"
  shows "length (slides ((nextSlide ^^ k) s)) = n \<and>
         currentSlide ((nextSlide ^^ k) s) = Some ((c + int k) mod int n)"
proof (induction k)
  case 0
  show ?case using assms by simp
next
  case (Suc k)
  let ?t = "(nextSlide ^^ k) s"
  have nn: "0 \<le> (c + int k) mod int n" using assms by simp
  have "currentSlide (nextSlide ?t) = Some (((c + int k) mod int n + 1) mod int n)"
    using Suc assms(2) nn by (intro next_step) simp_all
  moreover have "((c + int k) mod int n + 1) mod int n = (c + int (Suc k)) mod int n"
    by (simp add: mod_simps ac_simps)
  ultimately show ?case
    using Suc by (simp add: length_nextSlide)
qed

lemma prev_iter:
  assumes "length (slides s) = n" and "0 < n" and "currentSlide s = Some c" and "0 \<le> c"
    and "c < int n"
  shows "length (slides ((prevSlide ^^ k) s)) = n \<and>
         currentSlide ((prevSlide ^^ k) s) = Some ((c - int k) mod int n)"
proof (induction k)
  case 0
  show ?case using assms by simp
next
  case (Suc k)
  let ?t = "(prevSlide ^^ k) s"
  have nn: "0 \<le> (c - int k) mod int n" using assms by simp
  have "currentSlide (prevSlide ?t) = Some (((c - int k) mod int n - 1 + int n) mod int n)"
    using Suc assms(2) nn by (intro prev_step) simp_all
  moreover have "((c - int k) mod int n - 1 + int n) mod int n = (c - int (Suc k)) mod int n"
  proof -
    have "((c - int k) mod int n - 1 + int n) mod int n = ((c - int k) mod int n - 1) mod int n"
      by simp
    also have "\<dots> = (c - int k - 1) mod int n"
      by (simp add: mod_diff_left_eq)
    also have "c - int k - 1 = c - int (Suc k)"
      by simp
    finally show ?thesis .
  qed
  ultimately show ?case
    using Suc by (simp add: length_prevSlide)
qed

text \<open>
  Claim C6. With more than one slide and \<open>currentSlide\<close> a valid index \<open>c\<close>, \<open>nextSlide\<close>
  moves to \<open>(c + 1) mod count\<close> and \<open>prevSlide\<close> to \<open>(c - 1 + count) mod count\<close>, both
  again valid indices (and numbers), and \<open>count\<close> calls of \<open>nextSlide\<close> in a row, or of
  \<open>prevSlide\<close>, bring \<open>currentSlide\<close> back to \<open>c\<close>.
\<close>

theorem slide_transitions_cycle:
  assumes "1 < length (slides s)" and "currentSlide s = Some c"
    and "0 \<le> c" and "c < int (length (slides s))"
  shows "currentSlide (nextSlide s) = Some ((c + 1) mod int (length (slides s))) \<and>
     currentSlide (prevSlide s) =
       Some ((c - 1 + int (length (slides s))) mod int (length (slides s))) \<and>
     (\<exists>i. currentSlide (nextSlide s) = Some i \<and> 0 \<le> i \<and> i < int (length (slides s))) \<and>
     (\<exists>i. currentSlide (prevSlide s) = Some i \<and> 0 \<le> i \<and> i < int (length (slides s))) \<and>
     currentSlide ((nextSlide ^^ length (slides s)) s) = Some c \<and>
     currentSlide ((prevSlide ^^ length (slides s)) s) = Some c"
proof -
  define n where "n = length (slides s)"
  have n: "length (slides s) = n" "0 < n" "c < int n"
    using assms by (auto simp: n_def)
  note nx = next_step [OF n(1) n(2) assms(2) assms(3)]
  note pv = prev_step [OF n(1) n(2) assms(2) assms(3)]
  have "currentSlide ((nextSlide ^^ n) s) = Some ((c + int n) mod int n)"
    using next_iter [OF n(1) n(2) assms(2) assms(3) n(3)] by simp
  then have a: "currentSlide ((nextSlide ^^ n) s) = Some c"
    using assms(3) n by simp
  have "currentSlide ((prevSlide ^^ n) s) = Some ((c - int n) mod int n)"
    using prev_iter [OF n(1) n(2) assms(2) assms(3) n(3)] by simp
  then have b: "currentSlide ((prevSlide ^^ n) s) = Some c"
    using assms(3) n by simp
  show ?thesis
    unfolding n(1) using nx pv a b n(2) by simp
qed

theorem slide_transitions_cycle_witness:
  "1 < length (slides \<lparr>slides = [False, False, True], currentSlide = Some 2\<rparr>) \<and>
   currentSlide (nextSlide \<lparr>slides = [False, False, True], currentSlide = Some 2\<rparr>) = Some 0 \<and>
   currentSlide (prevSlide \<lparr>slides = [False, False, True], currentSlide = Some 2\<rparr>) = Some 1 \<and>
   currentSlide ((nextSlide ^^ 3) \<lparr>slides = [False, False, True], currentSlide = Some 2\<rparr>)
     = Some 2 \<and>
   currentSlide ((prevSlide ^^ 3) \<lparr>slides = [False, False, True], currentSlide = Some 2\<rparr>)
     = Some 2"
  using slide_transitions_cycle
    [of "\<lparr>slides = [False, False, True], currentSlide = Some 2\<rparr>" 2]
  by (simp add: numeral_3_eq_3)

section \<open>Properties of the backend\<close>

subsection \<open>Signup\<close>

text \<open>
  Claim C7 fails on the serverless entry point, whose handler has no test of the
  password's length: on a store with no user, the request with the user name \<open>bob\<close> and
  the three-character password \<open>abc\<close> is answered with 201 and the user is created
  (with the role \<open>admin\<close>).
\<close>

theorem serverless_signup_accepts_short_password:
  "signup Serverless sample_libs
      \<lparr>req_username = Some ''bob'', req_password = Some ''abc''\<rparr> empty_store =
     (\<lparr>status = 201, body = SignupBody ''User registered successfully'' ''bob''\<rparr>,
      \<lparr>connected = True,
       users = [\<lparr>user_id = 0, username = ''bob'', password = ''$2b$10$abc'',
                 role = ''admin''\<rparr>],
       photos = []\<rparr>)"
  by (simp add: signup_def signup_count_def signup_create_def signup_serverless_count_def
      signup_serverless_create_def falsy_def sample_libs_def empty_store_def
      User_create_def username_setter_def Let_def)

text \<open>
  The server's handler does what the claim says: a password of fewer than six
  characters is answered with 400, whatever the user name and the store, and the store
  is left as it was.
\<close>

lemma server_signup_rejects_short_password:
  "length pw < 6 \<Longrightarrow>
   status (fst (signup Server lib \<lparr>req_username = u, req_password = Some pw\<rparr> db)) = 400 \<and>
   snd (signup Server lib \<lparr>req_username = u, req_password = Some pw\<rparr> db) = db"
  by (cases u) (simp_all add: signup_def signup_count_def signup_server_count_def falsy_def)

lemma User_create_appends:
  "User_create v uname pw r db = Inr (doc, db') \<Longrightarrow>
   users db' = users db @ [doc] \<and> role doc = r"
  by (auto simp: User_create_def Let_def split: if_splits)

text \<open>
  What decides the role is the count the handler read, not the store at the time of
  the insertion: when the second step of a signup answers 201, it has added one user,
  whose role is \<open>admin\<close> if and only if the count read in the first step was zero.
\<close>

lemma signup_create_role:
  assumes "signup_create v lib k db = (resp, db')" and "status resp = 201"
  shows "\<exists>u. users db' = users db @ [u] \<and>
             (role u = ''admin'') = (p_userCount k = 0) \<and>
             (role u = ''user'') = (p_userCount k \<noteq> 0)"
proof (cases v)
  case Serverless
  with assms obtain doc where
    "User_create Serverless (p_username k) (p_password k)
       (if p_userCount k = 0 then ''admin'' else ''user'') db = Inr (doc, db')"
    by (auto simp: signup_create_def signup_serverless_create_def Let_def signup_catch_def
        store_down_signup_def split: if_splits sum.splits create_error.splits)
  from User_create_appends [OF this] show ?thesis by auto
next
  case Server
  with assms obtain doc where
    "User_create Server (p_username k) (bcrypt_hash lib (p_password k))
       (if p_userCount k = 0 then ''admin'' else ''user'') db = Inr (doc, db')"
    by (auto simp: signup_create_def signup_server_create_def Let_def signup_catch_def
        store_down_signup_def split: if_splits sum.splits create_error.splits)
  from User_create_appends [OF this] show ?thesis by auto
qed

lemma signup_count_reads_store:
  "signup_count v lib req db = Inr k \<Longrightarrow> p_userCount k = length (users db)"
  by (cases v)
    (auto simp: signup_count_def signup_serverless_count_def signup_server_count_def Let_def
      split: option.splits if_splits)

text \<open>
  A signup handled with no other request in between gives the first user, and only the
  first, the role \<open>admin\<close>: when it answers 201 one user is added, with the role \<open>admin\<close>
  if and only if the store held no user.
\<close>

lemma signup_alone_first_user_is_admin:
  assumes "signup v lib req db = (resp, db')" and "status resp = 201"
  shows "\<exists>u. users db' = users db @ [u] \<and>
             (role u = ''admin'') = (users db = []) \<and>
             (role u = ''user'') = (users db \<noteq> [])"
proof (cases "signup_count v lib req db")
  case (Inl r)
  with assms have "status r = 201"
    by (simp add: signup_def)
  with Inl show ?thesis
    by (cases v)
      (auto simp: signup_count_def signup_serverless_count_def signup_server_count_def
        Let_def store_down_signup_def split: option.splits if_splits)
next
  case (Inr k)
  with assms have "signup_create v lib k db = (resp, db')"
    by (simp add: signup_def)
  from signup_create_role [OF this assms(2)] signup_count_reads_store [OF Inr]
  show ?thesis by simp
qed

lemma signup_alone_is_arrive_then_resume:
  "signup_run v lib [Arrives i req, Resumes i] (idle db) =
     \<lparr>held = snd (signup v lib req db), waiting = [],
      answered = [(i, fst (signup v lib req db))]\<rparr>"
  by (cases "signup_count v lib req db")
    (auto simp: signup_run_def signup_step_def idle_def signup_def split: prod.splits)

text \<open>
  Claim C8 fails when two signups overlap, in both entry points. On a store with no
  user, the request 1 (\<open>alice\<close>) arrives and reads the count 0; before it resumes, the
  request 2 (\<open>bob\<close>) arrives and reads the count 0 as well; then both resume. Both are
  answered with 201 and both users have the role \<open>admin\<close>, though \<open>alice\<close> was in the
  store when \<open>bob\<close> was created.
\<close>

theorem overlapping_signups_both_admin:
  "map (\<lambda>a. (fst a, status (snd a)))
     (answered (signup_run Serverless sample_libs
        [Arrives 1 \<lparr>req_username = Some ''alice'', req_password = Some ''secret12''\<rparr>,
         Arrives 2 \<lparr>req_username = Some ''bob'', req_password = Some ''hunter22''\<rparr>,
         Resumes 1, Resumes 2] (idle empty_store))) = [(1, 201), (2, 201)] \<and>
   map (\<lambda>u. (username u, role u))
     (users (held (signup_run Serverless sample_libs
        [Arrives 1 \<lparr>req_username = Some ''alice'', req_password = Some ''secret12''\<rparr>,
         Arrives 2 \<lparr>req_username = Some ''bob'', req_password = Some ''hunter22''\<rparr>,
         Resumes 1, Resumes 2] (idle empty_store)))) =
     [(''alice'', ''admin''), (''bob'', ''admin'')] \<and>
   map (\<lambda>a. (fst a, status (snd a)))
     (answered (signup_run Server sample_libs
        [Arrives 1 \<lparr>req_username = Some ''alice'', req_password = Some ''secret12''\<rparr>,
         Arrives 2 \<lparr>req_username = Some ''bob'', req_password = Some ''hunter22''\<rparr>,
         Resumes 1, Resumes 2] (idle empty_store))) = [(1, 201), (2, 201)] \<and>
   map (\<lambda>u. (username u, role u))
     (users (held (signup_run Server sample_libs
        [Arrives 1 \<lparr>req_username = Some ''alice'', req_password = Some ''secret12''\<rparr>,
         Arrives 2 \<lparr>req_username = Some ''bob'', req_password = Some ''hunter22''\<rparr>,
         Resumes 1, Resumes 2] (idle empty_store)))) =
     [(''alice'', ''admin''), (''bob'', ''admin'')]"
  by (simp add: signup_run_def signup_step_def idle_def signup_count_def signup_create_def
      signup_serverless_count_def signup_serverless_create_def signup_server_count_def
      signup_server_create_def falsy_def sample_libs_def empty_store_def User_create_def
      username_setter_def js_trim_def is_space_def Let_def)

subsection \<open>The photo listing\<close>

lemma mset_most_recent_first: "mset (most_recent_first ps) = mset ps"
  by (simp add: most_recent_first_def)

lemma sorted_most_recent_first:
  "sorted_wrt (\<lambda>a b. uploadDate b \<le> uploadDate a) (most_recent_first ps)"
proof -
  have "sorted (map (\<lambda>p. - uploadDate p) (most_recent_first ps))"
    unfolding most_recent_first_def by (rule sorted_sort_key)
  then show ?thesis by (simp add: sorted_map)
qed

lemma most_recent_first_Nil: "most_recent_first ps = [] \<longleftrightarrow> ps = []"
  using mset_most_recent_first [of ps] by (metis mset_zero_iff)

text \<open>
  Claim C9, as stated, fails on the server's entry point: with a reachable store that
  holds no photo it answers with the empty list, not with placeholder entries.
\<close>

theorem server_photos_empty_list:
  "get_photos Server \<lparr>connected = True, users = [], photos = []\<rparr> =
     \<lparr>status = 200, body = PhotosBody []\<rparr>"
  by (simp add: get_photos_def get_photos_server_def most_recent_first_def)

text \<open>
  Claim C9, amended. The serverless entry point always answers with status 200: with
  the stored photos, most recent first, when the store is reachable and holds a photo,
  and with the two placeholder entries otherwise. The server's entry point answers
  with the stored photos, most recent first, which is the empty list when none is
  stored, and with status 500 when the store cannot be read. Most recent first: the
  same photos (as a multiset), by decreasing upload date.
\<close>

theorem photo_listing:
  "get_photos Serverless db =
     \<lparr>status = 200,
      body = PhotosBody (if connected db \<and> photos db \<noteq> []
                         then map Stored (most_recent_first (photos db)) else mockPhotos)\<rparr> \<and>
   get_photos Server db =
     (if connected db
      then \<lparr>status = 200, body = PhotosBody (map Stored (most_recent_first (photos db)))\<rparr>
      else \<lparr>status = 500, body = ErrorBody ''Failed to fetch photos''\<rparr>) \<and>
   mset (most_recent_first (photos db)) = mset (photos db) \<and>
   sorted_wrt (\<lambda>a b. uploadDate b \<le> uploadDate a) (most_recent_first (photos db)) \<and>
   get_photos Server (db\<lparr>connected := True, photos := []\<rparr>) =
     \<lparr>status = 200, body = PhotosBody []\<rparr> \<and>
   mockPhotos \<noteq> []"
  by (simp add: get_photos_def get_photos_serverless_def get_photos_server_def Let_def
      mset_most_recent_first sorted_most_recent_first most_recent_first_Nil mockPhotos_def)

subsection \<open>Login\<close>

text \<open>
  For a request that carries a password, the two causes of a failed login get the same
  response: status 401 with the body \<open>{error: 'Invalid credentials'}\<close>, whether no user
  has the given name or the password does not match.
\<close>

lemma login_401_with_password:
  assumes "connected db" and "req_password req = Some pw"
    and "User_findOne v (req_username req) db = None \<or>
         (\<exists>u. User_findOne v (req_username req) db = Some u \<and>
              \<not> bcrypt_compare lib pw (password u))"
  shows "login v lib req db = \<lparr>status = 401, body = ErrorBody ''Invalid credentials''\<rparr>"
  using assms by (auto simp: login_def invalid_credentials_def)

text \<open>
  Claim C10 fails for a request without a password, in both entry points and with any
  libraries: on the store whose only user is \<open>alice\<close>, the body \<open>{username: 'alice'}\<close> is
  answered with 500 and \<open>{error: 'Login failed'}\<close>, the body \<open>{username: 'nobody'}\<close> with
  401 and \<open>{error: 'Invalid credentials'}\<close>. Neither login succeeds, the responses
  differ, and the difference tells the client whether the user name exists.
\<close>

theorem login_without_password_reveals_user:
  "login v lib \<lparr>req_username = Some ''alice'', req_password = None\<rparr> alice_store =
     \<lparr>status = 500, body = ErrorBody ''Login failed''\<rparr> \<and>
   login v lib \<lparr>req_username = Some ''nobody'', req_password = None\<rparr> alice_store =
     \<lparr>status = 401, body = ErrorBody ''Invalid credentials''\<rparr>"
  by (cases v)
    (simp_all add: login_def login_failed_def invalid_credentials_def alice_store_def
      User_findOne_def username_setter_def js_trim_def is_space_def)

end
